theory Spec2Isabelle
  imports Complex_Main
begin

section \<open>JavaScript values used by the client\<close>

text \<open>
  A JavaScript \<open>number\<close>. The client never computes with the numbers of a request; it
  only tests them for truthiness (\<open>x || d\<close>) and passes them on. The falsy numbers are
  zero and \<open>NaN\<close>; the infinities are left out of the model.
\<close>

datatype number = Num real | NaN

definition truthy_number :: "number \<Rightarrow> bool" where
  "truthy_number n = (case n of Num r \<Rightarrow> r \<noteq> 0 | NaN \<Rightarrow> False)"

text \<open>\<open>x || d\<close> for an optional number \<open>x\<close>: \<open>undefined\<close>, zero and \<open>NaN\<close> give \<open>d\<close>.\<close>

definition or_number :: "number option \<Rightarrow> number \<Rightarrow> number" where
  "or_number x d =
     (case x of None \<Rightarrow> d | Some n \<Rightarrow> if truthy_number n then n else d)"

text \<open>\<open>x || d\<close> for a string: the empty string is falsy.\<close>

definition or_string :: "string \<Rightarrow> string \<Rightarrow> string" where
  "or_string x d = (if x = [] then d else x)"

definition truthy_string :: "string option \<Rightarrow> bool" where
  "truthy_string x = (case x of None \<Rightarrow> False | Some s \<Rightarrow> s \<noteq> [])"

definition or_string_opt :: "string option \<Rightarrow> string \<Rightarrow> string" where
  "or_string_opt x d = (case x of None \<Rightarrow> d | Some s \<Rightarrow> or_string s d)"

text \<open>
  Decimal text of a non-negative integer, as \<open>Number.prototype.toString\<close> gives it.
  \<open>digit_char\<close> is only applied to numbers below ten.
\<close>

definition digit_char :: "nat \<Rightarrow> char" where
  "digit_char d = ''0123456789'' ! d"

fun toString :: "nat \<Rightarrow> string" where
  "toString n = (if n < 10 then [digit_char n] else toString (n div 10) @ [digit_char (n mod 10)])"

declare toString.simps [simp del]

text \<open>A thrown value: an \<open>Error\<close> object with its message, or anything else.\<close>

datatype thrown = JsError string | NotAnError

section \<open>services/backendApi.ts\<close>

definition API_BASE_URL :: string where
  "API_BASE_URL = ''http://localhost:8000''"

definition LOCAL_MODEL_API_BASE_URL :: string where
  "LOCAL_MODEL_API_BASE_URL = ''http://localhost:8001''"

datatype backendMode = Mode_api | Mode_model

record CodeChunk =
  chunk_content :: string
  chunk_source :: string
  start_line :: number
  chunk_type :: string
  distance :: "number option"
  function_name :: "string option"
  class_name :: "string option"
  struct_name :: "string option"

record debug_info =
  retrieved_chunk_count :: number
  query_top_k :: number
  query_similarity_threshold :: number
  llm_temperature :: number

record QueryResponse =
  answer :: string
  retrieved_context :: "CodeChunk list"
  debug_info :: debug_info

record QueryRequest =
  query :: string
  req_temperature :: "number option"
  req_top_k :: "number option"
  req_similarity_threshold :: "number option"
  filter_type :: "string option"

record FileData =
  file_name :: string
  file_content :: string
  file_type :: string

record DiagramPayload =
  payload_files :: "FileData list option"
  payload_chunk :: "CodeChunk option"
  payload_retrieved_context :: "CodeChunk list option"

record DiagramResponse =
  mermaid_syntax :: string

text \<open>
  The value that \<open>JSON.stringify\<close> serialises. A request body is kept as this value
  rather than as its text: the claims are about field names and field values. An object
  literal written in the client is a \<open>JObject\<close> with its fields in the order they are
  written. A payload object handed in by a caller is serialised as it is, its keys in the
  order the object has them, which the record does not tell: it is kept whole.
\<close>

datatype json =
    JNull
  | JNumber real
  | JString string
  | JArray "json list"
  | JObject "(string \<times> json) list"
  | JPayload DiagramPayload

text \<open>\<open>JSON.stringify\<close> writes \<open>NaN\<close> as \<open>null\<close>.\<close>

definition json_of_number :: "number \<Rightarrow> json" where
  "json_of_number n = (case n of Num r \<Rightarrow> JNumber r | NaN \<Rightarrow> JNull)"

text \<open>
  An object literal whose fields may be \<open>undefined\<close> (\<open>None\<close>): \<open>JSON.stringify\<close> drops
  those fields and keeps the others in the order they were written.
\<close>

fun stringify_fields :: "(string \<times> json option) list \<Rightarrow> (string \<times> json) list" where
  "stringify_fields [] = []"
| "stringify_fields ((k, None) # fs) = stringify_fields fs"
| "stringify_fields ((k, Some v) # fs) = (k, v) # stringify_fields fs"

definition JSON_stringify :: "(string \<times> json option) list \<Rightarrow> json" where
  "JSON_stringify fs = JObject (stringify_fields fs)"

text \<open>The \<open>RequestInit\<close> options the service passes to its \<open>request\<close> helper.\<close>

record RequestInit =
  init_method :: "string option"
  init_headers :: "(string \<times> string) list option"
  init_body :: "json option"

definition no_options :: RequestInit where
  "no_options = \<lparr>init_method = None, init_headers = None, init_body = None\<rparr>"

text \<open>What reaches \<open>fetch\<close>: the address and the merged options.\<close>

record http_request =
  url :: string
  http_method :: "string option"
  headers :: "(string \<times> string) list"
  body :: "json option"

text \<open>
  What \<open>fetch\<close> gives back: the promise rejects (\<open>Inl\<close>), or it resolves to a response
  with its \<open>ok\<close> flag, its status, and the outcomes of \<open>response.text()\<close> and
  \<open>response.json()\<close>. The decoded body has the type the caller declares for it.
\<close>

record 'r Response =
  resp_ok :: bool
  resp_status :: nat
  resp_text :: "thrown + string"
  resp_json :: "thrown + 'r"

type_synonym 'r fetch = "http_request \<Rightarrow> thrown + 'r Response"

definition getBaseUrl :: "backendMode \<Rightarrow> string" where
  "getBaseUrl mode = (if mode = Mode_api then API_BASE_URL else LOCAL_MODEL_API_BASE_URL)"

text \<open>
  \<open>{ headers: { 'Content-Type': 'application/json', ...options.headers }, ...options }\<close>:
  the spread of \<open>options\<close> comes last, so a \<open>headers\<close> field of \<open>options\<close> replaces the
  merged one.
\<close>

definition merged_headers :: "RequestInit \<Rightarrow> (string \<times> string) list" where
  "merged_headers options =
     (case init_headers options of
        None \<Rightarrow> [(''Content-Type'', ''application/json'')]
      | Some h \<Rightarrow> h)"

definition request_of :: "string \<Rightarrow> RequestInit \<Rightarrow> backendMode \<Rightarrow> http_request" where
  "request_of endpoint options mode =
     \<lparr>url = getBaseUrl mode @ endpoint,
      http_method = init_method options,
      headers = merged_headers options,
      body = init_body options\<rparr>"

text \<open>
  The \<open>request\<close> helper. The result is the list of calls made to \<open>fetch\<close> and the
  outcome of the returned promise: \<open>Inl\<close> when it rejects.
\<close>

definition request ::
  "'r fetch \<Rightarrow> string \<Rightarrow> RequestInit \<Rightarrow> backendMode \<Rightarrow> http_request list \<times> (thrown + 'r)" where
  "request fetch endpoint options mode =
     (let req = request_of endpoint options mode in
      ([req],
       case fetch req of
         Inl e \<Rightarrow> Inl e
       | Inr response \<Rightarrow>
           if \<not> resp_ok response then
             (case resp_text response of
                Inl e \<Rightarrow> Inl e
              | Inr errorData \<Rightarrow>
                  Inl (JsError (''HTTP '' @ toString (resp_status response) @ '': '' @ errorData)))
           else resp_json response))"

definition checkHealth :: "'r fetch \<Rightarrow> http_request list \<times> (thrown + 'r)" where
  "checkHealth fetch = request fetch ''/health'' no_options Mode_api"

definition listCodebaseFiles ::
  "FileData list fetch \<Rightarrow> http_request list \<times> (thrown + FileData list)" where
  "listCodebaseFiles fetch = request fetch ''/list_codebase'' no_options Mode_api"

definition clearCodebase :: "'r fetch \<Rightarrow> http_request list \<times> (thrown + 'r)" where
  "clearCodebase fetch =
     request fetch ''/clear_codebase'' (no_options\<lparr>init_method := Some ''POST''\<rparr>) Mode_api"

definition askQuestion_body :: "QueryRequest \<Rightarrow> json" where
  "askQuestion_body req =
     JSON_stringify
       [(''query'', Some (JString (query req))),
        (''temperature'', Some (json_of_number (or_number (req_temperature req) (Num 0.2)))),
        (''top_k'', Some (json_of_number (or_number (req_top_k req) (Num 5)))),
        (''similarity_threshold'',
           Some (json_of_number (or_number (req_similarity_threshold req) (Num 0.7)))),
        (''filter_type'', map_option JString (filter_type req))]"

definition askQuestion ::
  "QueryResponse fetch \<Rightarrow> QueryRequest \<Rightarrow> http_request list \<times> (thrown + QueryResponse)" where
  "askQuestion fetch req =
     request fetch ''/ask/''
       (no_options\<lparr>init_method := Some ''POST'', init_body := Some (askQuestion_body req)\<rparr>)
       Mode_api"

definition askModelQuestion_body :: "QueryRequest \<Rightarrow> json" where
  "askModelQuestion_body req =
     JSON_stringify
       [(''question'', Some (JString (query req))),
        (''temperature'', Some (json_of_number (or_number (req_temperature req) (Num 0.2)))),
        (''top_k'', Some (json_of_number (or_number (req_top_k req) (Num 5)))),
        (''similarity_threshold'',
           Some (json_of_number (or_number (req_similarity_threshold req) (Num 0.7))))]"

definition askModelQuestion ::
  "QueryResponse fetch \<Rightarrow> QueryRequest \<Rightarrow> http_request list \<times> (thrown + QueryResponse)" where
  "askModelQuestion fetch req =
     request fetch ''/ask_model''
       (no_options\<lparr>init_method := Some ''POST'', init_body := Some (askModelQuestion_body req)\<rparr>)
       Mode_model"

definition generateChunkDiagram ::
  "DiagramResponse fetch \<Rightarrow> DiagramPayload \<Rightarrow> http_request list \<times> (thrown + DiagramResponse)" where
  "generateChunkDiagram fetch payload =
     request fetch ''/generate_chunk_diagram''
       (no_options\<lparr>init_method := Some ''POST'', init_body := Some (JPayload payload)\<rparr>)
       Mode_model"

section \<open>components/InteractiveChat.tsx\<close>

datatype message_type = user | bot

record ChatMessage =
  msg_id :: string
  msg_type :: message_type
  content :: string
  timestamp :: nat
  response :: "QueryResponse option"
  msg_isLoading :: "bool option"

record ChatSettings =
  temperature :: number
  top_k :: number
  similarity_threshold :: number

text \<open>
  The props of the component and the two pieces of its own state that the submit handler
  reads and writes (\<open>inputValue\<close>, \<open>isLoading\<close>). \<open>setMessages\<close> replaces the parent's
  sequence, which comes back as the \<open>messages\<close> prop; a handler sees the values of the
  latest render. \<open>onQueryComplete\<close> is an optional prop: the flag says whether the parent
  passed it.
\<close>

record chat =
  hasFiles :: bool
  backendMode :: backendMode
  messages :: "ChatMessage list"
  settings :: ChatSettings
  onQueryComplete :: bool
  inputValue :: string
  isLoading :: bool

text \<open>What a handler does to the outside, in order.\<close>

datatype event =
    SetMessages "ChatMessage list"
  | SetInputValue string
  | SetIsLoading bool
  | Fetch http_request
  | OnQueryComplete string QueryResponse nat
  | Alert string

text \<open>
  The readings of the clock that one run of the handler takes: \<open>Date.now()\<close> for the two
  ids, \<open>new Date()\<close> for the two timestamps, and \<open>new Date()\<close> for the observer once
  the answer is there. Times are milliseconds since the epoch.
\<close>

record clock =
  now_user_id :: nat
  now_user :: nat
  now_bot_id :: nat
  now_bot :: nat
  now_done :: nat

text \<open>
  \<open>String.prototype.trim\<close> on text whose code units are below 256: the white space and
  line terminators of that range are TAB, LF, VT, FF, CR, SP and NBSP.
\<close>

definition isWhiteSpace :: "char \<Rightarrow> bool" where
  "isWhiteSpace c =
     (let n = (of_char c :: nat) in
      n = 9 \<or> n = 10 \<or> n = 11 \<or> n = 12 \<or> n = 13 \<or> n = 32 \<or> n = 160)"

definition trim :: "string \<Rightarrow> string" where
  "trim s = rev (dropWhile isWhiteSpace (rev (dropWhile isWhiteSpace s)))"

definition userMessage_of :: "clock \<Rightarrow> chat \<Rightarrow> ChatMessage" where
  "userMessage_of clk c =
     \<lparr>msg_id = toString (now_user_id clk),
      msg_type = user,
      content = trim (inputValue c),
      timestamp = now_user clk,
      response = None,
      msg_isLoading = None\<rparr>"

definition botMessage_of :: "clock \<Rightarrow> ChatMessage" where
  "botMessage_of clk =
     \<lparr>msg_id = toString (now_bot_id clk + 1),
      msg_type = bot,
      content = [],
      timestamp = now_bot clk,
      response = None,
      msg_isLoading = Some True\<rparr>"

text \<open>
  What the handler holds across its \<open>await\<close>: the two messages, the sequence it built,
  and the props of the render it was created in.
\<close>

record inflight =
  fl_userMessage :: ChatMessage
  fl_botMessage :: ChatMessage
  fl_newMessages :: "ChatMessage list"
  fl_backendMode :: backendMode
  fl_settings :: ChatSettings
  fl_onQueryComplete :: bool

text \<open>
  The handler up to its \<open>try\<close>: the guard, the two messages, and the three state updates.
  \<open>None\<close> is the early \<open>return\<close>.
\<close>

definition handleSendMessage_dispatch :: "clock \<Rightarrow> chat \<Rightarrow> (chat \<times> event list \<times> inflight) option" where
  "handleSendMessage_dispatch clk c =
     (if trim (inputValue c) = [] \<or> isLoading c \<or> \<not> hasFiles c then None
      else
        let userMessage = userMessage_of clk c;
            botMessage = botMessage_of clk;
            newMessages = messages c @ [userMessage, botMessage]
        in Some
          (c\<lparr>messages := newMessages, inputValue := [], isLoading := True\<rparr>,
           [SetMessages newMessages, SetInputValue [], SetIsLoading True],
           \<lparr>fl_userMessage = userMessage,
            fl_botMessage = botMessage,
            fl_newMessages = newMessages,
            fl_backendMode = backendMode c,
            fl_settings = settings c,
            fl_onQueryComplete = onQueryComplete c\<rparr>))"

text \<open>The call made in the \<open>try\<close> block, chosen by the mode.\<close>

definition handleSendMessage_ask ::
  "QueryResponse fetch \<Rightarrow> inflight \<Rightarrow> http_request list \<times> (thrown + QueryResponse)" where
  "handleSendMessage_ask fetch fl =
     (let req =
        \<lparr>query = content (fl_userMessage fl),
         req_temperature = Some (temperature (fl_settings fl)),
         req_top_k = Some (top_k (fl_settings fl)),
         req_similarity_threshold = Some (similarity_threshold (fl_settings fl)),
         filter_type = None\<rparr>
      in if fl_backendMode fl = Mode_api then askQuestion fetch req
         else askModelQuestion fetch req)"

definition resolved_message :: "QueryResponse \<Rightarrow> ChatMessage \<Rightarrow> ChatMessage" where
  "resolved_message r msg =
     msg\<lparr>content := or_string (answer r) ''No response received'',
         response := Some r,
         msg_isLoading := Some False\<rparr>"

definition error_content :: "thrown \<Rightarrow> string" where
  "error_content error =
     ''Error: '' @ (case error of JsError message \<Rightarrow> message | NotAnError \<Rightarrow> ''Failed to get response'')"

definition failed_message :: "thrown \<Rightarrow> ChatMessage \<Rightarrow> ChatMessage" where
  "failed_message error msg = msg\<lparr>content := error_content error, msg_isLoading := Some False\<rparr>"

text \<open>
  The rest of the handler, once the call has settled: the \<open>try\<close> block after the
  \<open>await\<close>, the \<open>catch\<close> block, and \<open>finally\<close>. It runs on the state as it is by then.
\<close>

definition handleSendMessage_settle ::
  "inflight \<Rightarrow> thrown + QueryResponse \<Rightarrow> nat \<Rightarrow> chat \<Rightarrow> chat \<times> event list" where
  "handleSendMessage_settle fl outcome now c =
     (case outcome of
        Inr r \<Rightarrow>
          let updatedMessages =
                map (\<lambda>msg. if msg_id msg = msg_id (fl_botMessage fl) then resolved_message r msg else msg)
                  (fl_newMessages fl)
          in (c\<lparr>messages := updatedMessages, isLoading := False\<rparr>,
              [SetMessages updatedMessages]
              @ (if fl_onQueryComplete fl
                 then [OnQueryComplete (content (fl_userMessage fl)) r now] else [])
              @ [SetIsLoading False])
      | Inl error \<Rightarrow>
          let failedMessages =
                map (\<lambda>msg. if msg_id msg = msg_id (fl_botMessage fl) then failed_message error msg else msg)
                  (fl_newMessages fl)
          in (c\<lparr>messages := failedMessages, isLoading := False\<rparr>,
              [SetMessages failedMessages, SetIsLoading False]))"

text \<open>
  One whole run of \<open>handleSendMessage\<close> with nothing else happening while the call is
  outstanding. The third component is the rejection of the promise the handler returns:
  the \<open>catch\<close> block takes everything the \<open>try\<close> block throws, so there is none.
\<close>

definition handleSendMessage ::
  "QueryResponse fetch \<Rightarrow> clock \<Rightarrow> chat \<Rightarrow> chat \<times> event list \<times> thrown option" where
  "handleSendMessage fetch clk c =
     (case handleSendMessage_dispatch clk c of
        None \<Rightarrow> (c, [], None)
      | Some (c1, ev1, fl) \<Rightarrow>
          let (calls, outcome) = handleSendMessage_ask fetch fl;
              (c2, ev2) = handleSendMessage_settle fl outcome (now_done clk) c1
          in (c2, ev1 @ map Fetch calls @ ev2, None))"

text \<open>
  A new instance of the component on the given props. The dashboard renders
  \<open>InteractiveChat\<close> only while the chat tab is the active one, so leaving the tab and
  coming back mounts a new instance, whose \<open>inputValue\<close> and \<open>isLoading\<close> start from the
  initial values of their \<open>useState\<close> calls; the messages are a prop and stay.
\<close>

definition InteractiveChat_mount :: "chat \<Rightarrow> chat" where
  "InteractiveChat_mount props = props\<lparr>inputValue := [], isLoading := False\<rparr>"

text \<open>A test driver: submits made one after the other, each on the state the last one left.\<close>

fun submits :: "(string \<times> QueryResponse fetch \<times> clock) list \<Rightarrow> chat \<Rightarrow> chat" where
  "submits [] c = c"
| "submits ((input, fetch, clk) # xs) c =
     submits xs (fst (handleSendMessage fetch clk (c\<lparr>inputValue := input\<rparr>)))"

fun fetches :: "event list \<Rightarrow> http_request list" where
  "fetches [] = []"
| "fetches (Fetch r # es) = r # fetches es"
| "fetches (e # es) = fetches es"

fun message_updates :: "event list \<Rightarrow> ChatMessage list list" where
  "message_updates [] = []"
| "message_updates (SetMessages ms # es) = ms # message_updates es"
| "message_updates (e # es) = message_updates es"

fun notifications :: "event list \<Rightarrow> (string \<times> QueryResponse \<times> nat) list" where
  "notifications [] = []"
| "notifications (OnQueryComplete q r t # es) = (q, r, t) # notifications es"
| "notifications (e # es) = notifications es"

fun alerts :: "event list \<Rightarrow> string list" where
  "alerts [] = []"
| "alerts (Alert a # es) = a # alerts es"
| "alerts (e # es) = alerts es"

fun json_field :: "json \<Rightarrow> string \<Rightarrow> json option" where
  "json_field (JObject fs) k = map_of fs k"
| "json_field j k = None"

subsection \<open>The diagram of a chunk\<close>

fun startsWith :: "string \<Rightarrow> string \<Rightarrow> bool" where
  "startsWith s [] = True"
| "startsWith [] (p # ps) = False"
| "startsWith (c # cs) (p # ps) = (c = p \<and> startsWith cs ps)"

fun includes_str :: "string \<Rightarrow> string \<Rightarrow> bool" where
  "includes_str [] sub = (sub = [])"
| "includes_str (c # cs) sub = (startsWith (c # cs) sub \<or> includes_str cs sub)"

definition nl :: string where
  "nl = [CHR 0x0A]"

definition flowchart_skeleton :: "string \<Rightarrow> string" where
  "flowchart_skeleton name =
     ''graph TD'' @ nl @
     ''    A[Start '' @ name @ ''] --> B{Process?}'' @ nl @
     ''    B -- Yes --> C[Do Something]'' @ nl @
     ''    C --> D[End]'' @ nl @
     ''    B -- No --> D''"

definition class_skeleton :: string where
  "class_skeleton =
     ''classDiagram'' @ nl @
     ''    class MyClass {'' @ nl @
     ''        + myMethod()'' @ nl @
     ''        - myField'' @ nl @
     ''    }'' @ nl @
     ''    MyClass <|-- AnotherClass'' @ nl @
     ''    MyClass : +memberVariable'' @ nl @
     ''    MyClass : +memberFunction()''"

definition generic_stub :: string where
  "generic_stub =
     ''graph TD'' @ nl @
     ''    A[Code Chunk] --> B[Content Analysis]'' @ nl @
     ''    B --> C[No specific structure found]''"

definition error_diagram :: "string \<Rightarrow> string" where
  "error_diagram what =
     ''graph TD'' @ nl @
     ''    A[Error generating diagram for '' @ what @ '']'' @ nl @
     ''    A --> B[Check console for details]''"

text \<open>
  The result is the list of calls made to \<open>fetch\<close> and the text the promise resolves to:
  both branches end in a \<open>return\<close>, and the \<open>catch\<close> of the first takes what its call
  throws.
\<close>

definition generateMermaidForChunk ::
  "DiagramResponse fetch \<Rightarrow> backendMode \<Rightarrow> CodeChunk \<Rightarrow> http_request list \<times> string" where
  "generateMermaidForChunk fetch mode chunk =
     (if mode = Mode_model then
        (let payload = \<lparr>payload_files = None, payload_chunk = Some chunk,
                         payload_retrieved_context = None\<rparr>
         in case generateChunkDiagram fetch payload of
              (calls, Inr r) \<Rightarrow> (calls, mermaid_syntax r)
            | (calls, Inl error) \<Rightarrow>
                (calls, error_diagram (or_string_opt (function_name chunk) (chunk_source chunk))))
      else
        ([],
         if truthy_string (function_name chunk) then
           flowchart_skeleton (or_string_opt (function_name chunk) [])
         else if chunk_type chunk = ''class'' \<or> includes_str (chunk_content chunk) ''class ''
                 \<or> includes_str (chunk_content chunk) ''struct '' then class_skeleton
         else generic_stub))"

section \<open>components/EnhancedDashboard.tsx\<close>

text \<open>
  An entry of \<open>localStorage\<close>, seen through \<open>JSON.parse\<close>: either the JSON text of a
  value of the type the application writes under that key (kept as that value; a
  timestamp written as ISO text and read back with \<open>new Date\<close> is the same instant), or
  a text that is not JSON. JSON text of another shape is outside the model.
\<close>

datatype 'a stored = NotJSON string | Encoded 'a

record localStorage =
  ls_chatMessages :: "ChatMessage list stored option"
  ls_chatSettings :: "ChatSettings stored option"
  ls_uploadedFiles :: "FileData list stored option"

text \<open>The engine words the message of the error itself; the model fixes it.\<close>

definition SyntaxError :: thrown where
  "SyntaxError = JsError ''SyntaxError''"

definition JSON_parse :: "'a stored \<Rightarrow> thrown + 'a" where
  "JSON_parse s = (case s of NotJSON t \<Rightarrow> Inl SyntaxError | Encoded v \<Rightarrow> Inr v)"

text \<open>
  \<open>if (saved) { ... JSON.parse(saved) ... }\<close> after \<open>getItem\<close>: \<open>null\<close> and the empty
  text are falsy, and nothing is parsed (\<open>None\<close>); otherwise the outcome of the parse.
\<close>

definition parse_if_saved :: "'a stored option \<Rightarrow> (thrown + 'a) option" where
  "parse_if_saved saved =
     (case saved of
        None \<Rightarrow> None
      | Some (NotJSON t) \<Rightarrow> if t = [] then None else Some (JSON_parse (NotJSON t))
      | Some (Encoded v) \<Rightarrow> Some (JSON_parse (Encoded v)))"

datatype backendStatus = Status_connected | Status_disconnected | Status_checking

record dashboard =
  hasBackendFiles :: bool
  localFiles :: "FileData list"
  loading :: bool
  backendStatus :: backendStatus
  chatMessages :: "ChatMessage list"
  chatSettings :: ChatSettings
  localStorage :: localStorage

text \<open>The state of the first render: the initial values of the \<open>useState\<close> calls.\<close>

definition default_settings :: ChatSettings where
  "default_settings = \<lparr>temperature = Num 0.2, top_k = Num 5, similarity_threshold = Num 0.7\<rparr>"

definition initial_dashboard :: "localStorage \<Rightarrow> dashboard" where
  "initial_dashboard ls =
     \<lparr>hasBackendFiles = False,
      localFiles = [],
      loading = True,
      backendStatus = Status_checking,
      chatMessages = [],
      chatSettings = default_settings,
      localStorage = ls\<rparr>"

text \<open>
  The effect run on mount, from the read of \<open>chatMessages\<close> on: the two calls before it
  start asynchronous work and cannot throw into the effect. The second component is what
  the effect throws, if anything; the state is the one reached by then.
\<close>

definition mount_effect :: "dashboard \<Rightarrow> dashboard \<times> thrown option" where
  "mount_effect d =
     (case parse_if_saved (ls_chatMessages (localStorage d)) of
        Some (Inl e) \<Rightarrow> (d, Some e)
      | loaded \<Rightarrow>
          (let d1 = (case loaded of Some (Inr parsedMessages) \<Rightarrow> d\<lparr>chatMessages := parsedMessages\<rparr>
                     | _ \<Rightarrow> d)
           in case parse_if_saved (ls_chatSettings (localStorage d)) of
                None \<Rightarrow> (d1, None)
              | Some (Inl e) \<Rightarrow> (d1, Some e)
              | Some (Inr parsedSettings) \<Rightarrow> (d1\<lparr>chatSettings := parsedSettings\<rparr>, None)))"

text \<open>The two effects that write the messages and the settings back after a render.\<close>

definition persist_effects :: "dashboard \<Rightarrow> dashboard" where
  "persist_effects d =
     d\<lparr>localStorage := (localStorage d)
          \<lparr>ls_chatMessages := Some (Encoded (chatMessages d)),
           ls_chatSettings := Some (Encoded (chatSettings d))\<rparr>\<rparr>"

definition checkLocalFiles ::
  "FileData list fetch \<Rightarrow> dashboard \<Rightarrow> dashboard \<times> event list \<times> thrown option" where
  "checkLocalFiles fetch d =
     (case listCodebaseFiles fetch of
        (calls, Inr backendFiles) \<Rightarrow>
          (d\<lparr>localFiles := backendFiles,
             hasBackendFiles := (length backendFiles > 0),
             localStorage := (localStorage d)\<lparr>ls_uploadedFiles := Some (Encoded backendFiles)\<rparr>,
             loading := False\<rparr>,
           map Fetch calls, None)
      | (calls, Inl error) \<Rightarrow>
          (case parse_if_saved (ls_uploadedFiles (localStorage d)) of
             None \<Rightarrow> (d\<lparr>loading := False\<rparr>, map Fetch calls, None)
           | Some (Inl e) \<Rightarrow> (d\<lparr>loading := False\<rparr>, map Fetch calls, Some e)
           | Some (Inr parsedFiles) \<Rightarrow>
               (d\<lparr>localFiles := parsedFiles,
                  hasBackendFiles := (length parsedFiles > 0),
                  loading := False\<rparr>,
                map Fetch calls, None)))"

text \<open>The handler does not read its \<open>files\<close> argument.\<close>

definition handleBackendFilesUploaded ::
  "FileData list fetch \<Rightarrow> FileData list \<Rightarrow> dashboard \<Rightarrow> dashboard \<times> event list \<times> thrown option" where
  "handleBackendFilesUploaded fetch files d =
     (case checkLocalFiles fetch d of
        (d1, ev, Some e) \<Rightarrow> (d1, ev, Some e)
      | (d1, ev, None) \<Rightarrow> (d1\<lparr>hasBackendFiles := True\<rparr>, ev, None))"

definition handleClearBackendFiles :: "string fetch \<Rightarrow> dashboard \<Rightarrow> dashboard \<times> event list" where
  "handleClearBackendFiles fetch d =
     (case clearCodebase fetch of
        (calls, Inr ack) \<Rightarrow>
          (d\<lparr>hasBackendFiles := False,
             localFiles := [],
             chatMessages := [],
             localStorage := (localStorage d)\<lparr>ls_uploadedFiles := None\<rparr>\<rparr>,
           map Fetch calls)
      | (calls, Inl error) \<Rightarrow>
          (d, map Fetch calls @ [Alert ''Failed to clear files. Please check backend connection.'']))"

section \<open>Sample inputs\<close>

definition sample_settings :: ChatSettings where
  "sample_settings = \<lparr>temperature = Num 0.5, top_k = Num 3, similarity_threshold = Num 0.4\<rparr>"

definition sample_chat :: "backendMode \<Rightarrow> chat" where
  "sample_chat mode =
     \<lparr>hasFiles = True,
      backendMode = mode,
      messages = [],
      settings = sample_settings,
      onQueryComplete = True,
      inputValue = ''  what does main do? '',
      isLoading = False\<rparr>"

definition sample_clock :: clock where
  "sample_clock =
     \<lparr>now_user_id = 1000, now_user = 1000, now_bot_id = 1000, now_bot = 1000, now_done = 1250\<rparr>"

definition sample_response :: QueryResponse where
  "sample_response =
     \<lparr>answer = ''It parses the input.'',
      retrieved_context = [],
      debug_info =
        \<lparr>retrieved_chunk_count = Num 0, query_top_k = Num 3,
         query_similarity_threshold = Num 0.4, llm_temperature = Num 0.5\<rparr>\<rparr>"

text \<open>A server that answers every request with status 200 and the given body.\<close>

definition fetch_ok :: "'r \<Rightarrow> 'r fetch" where
  "fetch_ok v req = Inr \<lparr>resp_ok = True, resp_status = 200, resp_text = Inr [], resp_json = Inr v\<rparr>"

text \<open>A server that answers every request with status 500.\<close>

definition fetch_500 :: "'r fetch" where
  "fetch_500 req =
     Inr \<lparr>resp_ok = False, resp_status = 500, resp_text = Inr ''Internal Server Error'',
          resp_json = Inl SyntaxError\<rparr>"

text \<open>No server: \<open>fetch\<close> rejects.\<close>

definition fetch_refused :: "'r fetch" where
  "fetch_refused req = Inl (JsError ''Failed to fetch'')"

definition empty_storage :: localStorage where
  "empty_storage = \<lparr>ls_chatMessages = None, ls_chatSettings = None, ls_uploadedFiles = None\<rparr>"

definition sample_file :: FileData where
  "sample_file = \<lparr>file_name = ''main.c'', file_content = ''int main() { return 0; }'', file_type = ''c''\<rparr>"

definition sample_chunk :: CodeChunk where
  "sample_chunk =
     \<lparr>chunk_content = ''int parseInput(char *s);'',
      chunk_source = ''main.c'',
      start_line = Num 12,
      chunk_type = ''code'',
      distance = None,
      function_name = Some ''parseInput'',
      class_name = None,
      struct_name = None\<rparr>"

definition zero_request :: QueryRequest where
  "zero_request = \<lparr>query = ''q'', req_temperature = Some (Num 0), req_top_k = Some (Num 0),
     req_similarity_threshold = None, filter_type = None\<rparr>"

definition sample_submits :: "(string \<times> QueryResponse fetch \<times> clock) list" where
  "sample_submits =
     [(''what does main do?'', fetch_ok sample_response, sample_clock),
      ('' and parseInput? '', fetch_500,
       \<lparr>now_user_id = 5000, now_user = 5000, now_bot_id = 5000, now_bot = 5001, now_done = 5200\<rparr>)]"

definition sample_dashboard :: dashboard where
  "sample_dashboard =
     \<lparr>hasBackendFiles = True,
      localFiles = [sample_file],
      loading = False,
      backendStatus = Status_connected,
      chatMessages =
        [\<lparr>msg_id = ''1000'', msg_type = user, content = ''what does main do?'',
          timestamp = 1000, response = None, msg_isLoading = None\<rparr>,
         \<lparr>msg_id = ''1001'', msg_type = bot, content = ''It parses the input.'',
          timestamp = 1000, response = Some sample_response, msg_isLoading = Some False\<rparr>],
      chatSettings = sample_settings,
      localStorage = empty_storage\<lparr>ls_uploadedFiles := Some (Encoded [sample_file])\<rparr>\<rparr>"

definition sample_inflight_chat :: chat where
  "sample_inflight_chat =
     (sample_chat Mode_api)
       \<lparr>messages :=
          [\<lparr>msg_id = ''1000'', msg_type = user, content = ''what does main do?'',
            timestamp = 1000, response = None, msg_isLoading = None\<rparr>,
           \<lparr>msg_id = ''1001'', msg_type = bot, content = [],
            timestamp = 1000, response = None, msg_isLoading = Some True\<rparr>],
        inputValue := [], isLoading := True\<rparr>"

definition later_clock :: clock where
  "later_clock =
     \<lparr>now_user_id = 5000, now_user = 5000, now_bot_id = 5000, now_bot = 5001, now_done = 5200\<rparr>"

definition clash_chat :: chat where
  "clash_chat =
     (sample_chat Mode_api)
       \<lparr>messages :=
          [\<lparr>msg_id = ''1000'', msg_type = user, content = ''where is main?'',
            timestamp = 1000, response = None, msg_isLoading = None\<rparr>,
           \<lparr>msg_id = ''1001'', msg_type = bot, content = ''It parses the input.'',
            timestamp = 1000, response = Some sample_response, msg_isLoading = Some False\<rparr>]\<rparr>"

definition sample_messages :: "ChatMessage list" where
  "sample_messages =
     [\<lparr>msg_id = ''1000'', msg_type = user, content = ''what does main do?'',
       timestamp = 1000, response = None, msg_isLoading = None\<rparr>,
      \<lparr>msg_id = ''1001'', msg_type = bot, content = ''It parses the input.'',
       timestamp = 1000, response = Some sample_response, msg_isLoading = Some False\<rparr>]"

section \<open>Properties\<close>

subsection \<open>Auxiliary facts\<close>

lemma dispatch_rejected:
  "trim (inputValue c) = [] \<or> isLoading c \<or> \<not> hasFiles c \<Longrightarrow> handleSendMessage_dispatch clk c = None"
  by (auto simp: handleSendMessage_dispatch_def)

lemma dispatch_accepted:
  assumes "trim (inputValue c) \<noteq> []" "\<not> isLoading c" "hasFiles c"
  shows "handleSendMessage_dispatch clk c =
     Some (c\<lparr>messages := messages c @ [userMessage_of clk c, botMessage_of clk],
             inputValue := [], isLoading := True\<rparr>,
           [SetMessages (messages c @ [userMessage_of clk c, botMessage_of clk]),
            SetInputValue [], SetIsLoading True],
           \<lparr>fl_userMessage = userMessage_of clk c,
            fl_botMessage = botMessage_of clk,
            fl_newMessages = messages c @ [userMessage_of clk c, botMessage_of clk],
            fl_backendMode = backendMode c,
            fl_settings = settings c,
            fl_onQueryComplete = onQueryComplete c\<rparr>)"
  using assms by (simp add: handleSendMessage_dispatch_def Let_def)

lemma fetches_map_Fetch [simp]: "fetches (map Fetch rs) = rs"
  by (induction rs) auto

lemma fetches_append [simp]: "fetches (xs @ ys) = fetches xs @ fetches ys"
  by (induction xs rule: fetches.induct) auto

lemma notifications_append [simp]: "notifications (xs @ ys) = notifications xs @ notifications ys"
  by (induction xs rule: notifications.induct) auto

lemma notifications_map_Fetch [simp]: "notifications (map Fetch rs) = []"
  by (induction rs) auto

lemma message_updates_append [simp]: "message_updates (xs @ ys) = message_updates xs @ message_updates ys"
  by (induction xs rule: message_updates.induct) auto

lemma message_updates_map_Fetch [simp]: "message_updates (map Fetch rs) = []"
  by (induction rs) auto

lemma alerts_map_Fetch [simp]: "alerts (map Fetch rs) = []"
  by (induction rs) auto

lemma alerts_append [simp]: "alerts (xs @ ys) = alerts xs @ alerts ys"
  by (induction xs rule: alerts.induct) auto

lemma fetches_settle [simp]: "fetches (snd (handleSendMessage_settle fl outcome now c)) = []"
  by (cases outcome) (simp_all add: handleSendMessage_settle_def Let_def)

lemma request_calls: "fst (request fetch endpoint options mode) = [request_of endpoint options mode]"
  by (simp add: request_def Let_def)

lemma askModelQuestion_calls:
  "fst (askModelQuestion fetch req) =
     [\<lparr>url = ''http://localhost:8001/ask_model'', http_method = Some ''POST'',
       headers = [(''Content-Type'', ''application/json'')],
       body = Some (askModelQuestion_body req)\<rparr>]"
  by (simp add: askModelQuestion_def request_calls request_of_def getBaseUrl_def
      LOCAL_MODEL_API_BASE_URL_def merged_headers_def no_options_def)

lemma askQuestion_calls:
  "fst (askQuestion fetch req) =
     [\<lparr>url = ''http://localhost:8000/ask/'', http_method = Some ''POST'',
       headers = [(''Content-Type'', ''application/json'')],
       body = Some (askQuestion_body req)\<rparr>]"
  by (simp add: askQuestion_def request_calls request_of_def getBaseUrl_def
      API_BASE_URL_def merged_headers_def no_options_def)

lemma handleSendMessage_accepted:
  assumes "trim (inputValue c) \<noteq> []" "\<not> isLoading c" "hasFiles c"
  shows "handleSendMessage fetch clk c =
    (let c1 = c\<lparr>messages := messages c @ [userMessage_of clk c, botMessage_of clk],
             inputValue := [], isLoading := True\<rparr>;
         fl = \<lparr>fl_userMessage = userMessage_of clk c,
            fl_botMessage = botMessage_of clk,
            fl_newMessages = messages c @ [userMessage_of clk c, botMessage_of clk],
            fl_backendMode = backendMode c,
            fl_settings = settings c,
            fl_onQueryComplete = onQueryComplete c\<rparr>;
         r = handleSendMessage_ask fetch fl;
         s = handleSendMessage_settle fl (snd r) (now_done clk) c1
     in (fst s, [SetMessages (messages c @ [userMessage_of clk c, botMessage_of clk]),
            SetInputValue [], SetIsLoading True] @ map Fetch (fst r) @ snd s, None))"
  by (simp add: handleSendMessage_def dispatch_accepted[OF assms] Let_def split: prod.splits)

lemma json_field_ask:
  "json_field (askQuestion_body req) ''temperature'' = Some (json_of_number (or_number (req_temperature req) (Num 0.2)))"
  "json_field (askQuestion_body req) ''top_k'' = Some (json_of_number (or_number (req_top_k req) (Num 5)))"
  "json_field (askQuestion_body req) ''similarity_threshold'' = Some (json_of_number (or_number (req_similarity_threshold req) (Num 0.7)))"
  "json_field (askModelQuestion_body req) ''temperature'' = Some (json_of_number (or_number (req_temperature req) (Num 0.2)))"
  "json_field (askModelQuestion_body req) ''top_k'' = Some (json_of_number (or_number (req_top_k req) (Num 5)))"
  "json_field (askModelQuestion_body req) ''similarity_threshold'' = Some (json_of_number (or_number (req_similarity_threshold req) (Num 0.7)))"
  by (simp_all add: askQuestion_body_def askModelQuestion_body_def JSON_stringify_def)

lemma or_number_default:
  "x = None \<or> x = Some (Num 0) \<or> x = Some NaN \<Longrightarrow> or_number x d = d"
  by (auto simp: or_number_def truthy_number_def)

lemma or_number_nonzero:
  "d \<noteq> Num 0 \<Longrightarrow> or_number x d \<noteq> Num 0"
  by (auto simp: or_number_def truthy_number_def split: option.splits number.splits)

lemma json_of_number_nonzero: "n \<noteq> Num 0 \<Longrightarrow> json_of_number n \<noteq> JNumber 0"
  by (cases n) (simp_all add: json_of_number_def)

lemma settle_state:
  "fst (handleSendMessage_settle fl outcome now c) =
     c\<lparr>messages :=
          map (\<lambda>msg. if msg_id msg = msg_id (fl_botMessage fl)
                     then (case outcome of Inr r \<Rightarrow> resolved_message r msg
                           | Inl error \<Rightarrow> failed_message error msg)
                     else msg) (fl_newMessages fl),
        isLoading := False\<rparr>"
  by (cases outcome) (simp_all add: handleSendMessage_settle_def Let_def)

lemma msg_type_settled [simp]:
  "msg_type (case outcome of Inr r \<Rightarrow> resolved_message r msg | Inl error \<Rightarrow> failed_message error msg)
     = msg_type msg"
  by (cases outcome) (simp_all add: resolved_message_def failed_message_def)

lemma settle_types:
  "map msg_type (messages (fst (handleSendMessage_settle fl outcome now c))) =
     map msg_type (fl_newMessages fl)"
  by (simp add: settle_state o_def if_distrib [of msg_type] cong: if_cong)

lemma accepted_run:
  assumes "trim (inputValue c) \<noteq> []" "\<not> isLoading c" "hasFiles c"
  shows "map msg_type (messages (fst (handleSendMessage fetch clk c))) =
           map msg_type (messages c) @ [user, bot]"
    and "hasFiles (fst (handleSendMessage fetch clk c))"
    and "\<not> isLoading (fst (handleSendMessage fetch clk c))"
  by (simp_all add: handleSendMessage_accepted[OF assms] Let_def settle_types
      userMessage_of_def botMessage_of_def)
    (simp_all add: settle_state assms)

lemma submits_types:
  assumes "hasFiles c" "\<not> isLoading c" "\<forall>x\<in>set xs. trim (fst x) \<noteq> []"
  shows "map msg_type (messages (submits xs c)) =
           map msg_type (messages c) @ concat (replicate (length xs) [user, bot])"
  using assms
proof (induction xs arbitrary: c)
  case Nil
  then show ?case by simp
next
  case (Cons x xs)
  obtain input fetch clk where x: "x = (input, fetch, clk)" by (cases x)
  let ?c = "c\<lparr>inputValue := input\<rparr>"
  have acc: "trim (inputValue ?c) \<noteq> []" "\<not> isLoading ?c" "hasFiles ?c"
    using Cons.prems x by simp_all
  let ?c' = "fst (handleSendMessage fetch clk ?c)"
  have "map msg_type (messages (submits xs ?c')) =
          map msg_type (messages ?c') @ concat (replicate (length xs) [user, bot])"
    using Cons.prems accepted_run(2,3)[OF acc] by (intro Cons.IH) simp_all
  then show ?case
    by (simp add: x accepted_run(1)[OF acc])
qed

lemma dispatch_SomeD:
  assumes "handleSendMessage_dispatch clk c = Some (c1, ev, fl)"
  shows "trim (inputValue c) \<noteq> []" "\<not> isLoading c" "hasFiles c"
    "fl_userMessage fl = userMessage_of clk c" "fl_botMessage fl = botMessage_of clk"
    "fl_newMessages fl = messages c @ [userMessage_of clk c, botMessage_of clk]"
    "fl_onQueryComplete fl = onQueryComplete c"
    "c1 = c\<lparr>messages := messages c @ [userMessage_of clk c, botMessage_of clk],
             inputValue := [], isLoading := True\<rparr>"
  using assms by (auto simp: handleSendMessage_dispatch_def Let_def split: if_splits)

lemma handleSendMessage_dispatched:
  assumes "handleSendMessage_dispatch clk c = Some (c1, ev1, fl)"
  shows "handleSendMessage fetch clk c =
     (fst (handleSendMessage_settle fl (snd (handleSendMessage_ask fetch fl)) (now_done clk) c1),
      ev1 @ map Fetch (fst (handleSendMessage_ask fetch fl))
        @ snd (handleSendMessage_settle fl (snd (handleSendMessage_ask fetch fl)) (now_done clk) c1),
      None)"
  by (simp add: handleSendMessage_def assms split: prod.splits)

lemma sample_trim: "trim ''  what does main do? '' = ''what does main do?''"
  by (simp add: trim_def isWhiteSpace_def)

lemma sample_ids: "toString 1000 = ''1000''" "toString 1001 = ''1001''"
  by (simp_all add: toString.simps digit_char_def)

lemma sample_dispatch:
  "handleSendMessage_dispatch sample_clock (sample_chat mode) =
     Some ((sample_chat mode)\<lparr>messages :=
               [\<lparr>msg_id = ''1000'', msg_type = user, content = ''what does main do?'',
                 timestamp = 1000, response = None, msg_isLoading = None\<rparr>,
                \<lparr>msg_id = ''1001'', msg_type = bot, content = [],
                 timestamp = 1000, response = None, msg_isLoading = Some True\<rparr>],
             inputValue := [], isLoading := True\<rparr>,
           [SetMessages
               [\<lparr>msg_id = ''1000'', msg_type = user, content = ''what does main do?'',
                 timestamp = 1000, response = None, msg_isLoading = None\<rparr>,
                \<lparr>msg_id = ''1001'', msg_type = bot, content = [],
                 timestamp = 1000, response = None, msg_isLoading = Some True\<rparr>],
            SetInputValue [], SetIsLoading True],
           \<lparr>fl_userMessage =
               \<lparr>msg_id = ''1000'', msg_type = user, content = ''what does main do?'',
                 timestamp = 1000, response = None, msg_isLoading = None\<rparr>,
            fl_botMessage =
                \<lparr>msg_id = ''1001'', msg_type = bot, content = [],
                 timestamp = 1000, response = None, msg_isLoading = Some True\<rparr>,
            fl_newMessages =
               [\<lparr>msg_id = ''1000'', msg_type = user, content = ''what does main do?'',
                 timestamp = 1000, response = None, msg_isLoading = None\<rparr>,
                \<lparr>msg_id = ''1001'', msg_type = bot, content = [],
                 timestamp = 1000, response = None, msg_isLoading = Some True\<rparr>],
            fl_backendMode = mode,
            fl_settings = sample_settings,
            fl_onQueryComplete = True\<rparr>)"
  by (simp add: handleSendMessage_dispatch_def Let_def sample_chat_def sample_trim
      userMessage_of_def botMessage_of_def sample_clock_def sample_ids)

lemma ask_500:
  "snd (handleSendMessage_ask fetch_500 fl) = Inl (JsError ''HTTP 500: Internal Server Error'')"
  by (simp add: handleSendMessage_ask_def askQuestion_def askModelQuestion_def request_def
      fetch_500_def Let_def toString.simps digit_char_def)

lemma ask_ok:
  "snd (handleSendMessage_ask (fetch_ok r) fl) = Inr r"
  by (simp add: handleSendMessage_ask_def askQuestion_def askModelQuestion_def request_def
      fetch_ok_def Let_def)

lemma ask_one_call: "length (fst (handleSendMessage_ask fetch fl)) = 1"
  by (simp add: handleSendMessage_ask_def askQuestion_calls askModelQuestion_calls Let_def)

lemma ask_calls_nonempty: "fst (handleSendMessage_ask fetch fl) \<noteq> []"
  using ask_one_call [of fetch fl] by auto

lemma clear_500: "snd (clearCodebase fetch_500) = Inl (JsError ''HTTP 500: Internal Server Error'')"
  by (simp add: clearCodebase_def request_def fetch_500_def Let_def toString.simps digit_char_def)

lemma clear_ok: "snd (clearCodebase (fetch_ok v)) = Inr v"
  by (simp add: clearCodebase_def request_def fetch_ok_def Let_def)

lemma digit_char_inj:
  assumes "a < 10" "b < 10" "digit_char a = digit_char b"
  shows "a = b"
proof -
  have a: "a \<in> {0, 1, 2, 3, 4, 5, 6, 7, 8, 9}" using assms(1) by auto
  have b: "b \<in> {0, 1, 2, 3, 4, 5, 6, 7, 8, 9}" using assms(2) by auto
  show ?thesis using a b assms(3) by (auto simp: digit_char_def)
qed

lemma toString_nonempty: "toString n \<noteq> []"
  by (subst toString.simps) simp

lemma toString_inj: "toString m = toString n \<Longrightarrow> m = n"
proof (induction m arbitrary: n rule: toString.induct)
  case (1 m)
  show ?case
  proof (cases "m < 10")
    case True
    show ?thesis
    proof (cases "n < 10")
      case n: True
      from "1.prems" True n have "digit_char m = digit_char n"
        by (simp add: toString.simps [of m] toString.simps [of n])
      then show ?thesis using True n by (rule digit_char_inj [rotated 2])
    next
      case False
      from "1.prems" True False have "[digit_char m] = toString (n div 10) @ [digit_char (n mod 10)]"
        by (simp add: toString.simps [of m] toString.simps [of n])
      then show ?thesis using toString_nonempty [of "n div 10"] by simp
    qed
  next
    case False
    show ?thesis
    proof (cases "n < 10")
      case True
      from "1.prems" True False have "toString (m div 10) @ [digit_char (m mod 10)] = [digit_char n]"
        by (simp add: toString.simps [of m] toString.simps [of n])
      then show ?thesis using toString_nonempty [of "m div 10"] by simp
    next
      case n: False
      from "1.prems" False n
      have "toString (m div 10) @ [digit_char (m mod 10)] = toString (n div 10) @ [digit_char (n mod 10)]"
        by (simp add: toString.simps [of m] toString.simps [of n])
      then have e: "toString (m div 10) = toString (n div 10)"
        and d: "digit_char (m mod 10) = digit_char (n mod 10)" by simp_all
      have "m div 10 = n div 10" using "1.IH" [OF False e] .
      moreover have "m mod 10 = n mod 10" by (rule digit_char_inj [OF _ _ d]) simp_all
      ultimately show ?thesis by (metis div_mult_mod_eq)
    qed
  qed
qed

lemma user_id_differs:
  assumes "now_user_id clk \<le> now_bot_id clk"
  shows "toString (now_user_id clk) \<noteq> toString (now_bot_id clk + 1)"
proof
  assume "toString (now_user_id clk) = toString (now_bot_id clk + 1)"
  then have "now_user_id clk = now_bot_id clk + 1" by (rule toString_inj)
  with assms show False by simp
qed

subsection \<open>The claims\<close>

text \<open>
  Claim C1. An accepted submit issues exactly one request. Under the mode \<open>model\<close> it goes
  to \<open>/ask_model\<close> on the local backend and carries the question text under \<open>question\<close>,
  with \<open>temperature\<close>, \<open>top_k\<close> and \<open>similarity_threshold\<close>; under the mode \<open>api\<close> it
  goes to \<open>/ask/\<close> on the primary backend and carries the text under \<open>query\<close>.
\<close>

theorem handleSendMessage_request_by_mode:
  assumes "trim (inputValue c) \<noteq> []" "\<not> isLoading c" "hasFiles c"
  shows "fetches (fst (snd (handleSendMessage fetch clk c))) =
    [if backendMode c = Mode_api then
       \<lparr>url = ''http://localhost:8000/ask/'', http_method = Some ''POST'',
        headers = [(''Content-Type'', ''application/json'')],
        body = Some (JObject
          [(''query'', JString (trim (inputValue c))),
           (''temperature'', json_of_number (or_number (Some (temperature (settings c))) (Num 0.2))),
           (''top_k'', json_of_number (or_number (Some (top_k (settings c))) (Num 5))),
           (''similarity_threshold'',
              json_of_number (or_number (Some (similarity_threshold (settings c))) (Num 0.7)))])\<rparr>
     else
       \<lparr>url = ''http://localhost:8001/ask_model'', http_method = Some ''POST'',
        headers = [(''Content-Type'', ''application/json'')],
        body = Some (JObject
          [(''question'', JString (trim (inputValue c))),
           (''temperature'', json_of_number (or_number (Some (temperature (settings c))) (Num 0.2))),
           (''top_k'', json_of_number (or_number (Some (top_k (settings c))) (Num 5))),
           (''similarity_threshold'',
              json_of_number (or_number (Some (similarity_threshold (settings c))) (Num 0.7)))])\<rparr>]"
  by (simp add: handleSendMessage_accepted[OF assms] Let_def handleSendMessage_ask_def
      askQuestion_calls askModelQuestion_calls askQuestion_body_def askModelQuestion_body_def
      JSON_stringify_def userMessage_of_def)

text \<open>Claim C1 at sample inputs.\<close>

theorem handleSendMessage_request_by_mode_witness:
  "fetches (fst (snd (handleSendMessage (fetch_ok sample_response) sample_clock (sample_chat Mode_model)))) =
     [\<lparr>url = ''http://localhost:8001/ask_model'', http_method = Some ''POST'',
       headers = [(''Content-Type'', ''application/json'')],
       body = Some (JObject
         [(''question'', JString ''what does main do?''),
          (''temperature'', JNumber 0.5),
          (''top_k'', JNumber 3),
          (''similarity_threshold'', JNumber 0.4)])\<rparr>]"
proof -
  have t: "trim (inputValue (sample_chat Mode_model)) = ''what does main do?''"
    by (simp add: sample_chat_def trim_def isWhiteSpace_def)
  have a: "trim (inputValue (sample_chat Mode_model)) \<noteq> []" by (simp add: t)
  have b: "\<not> isLoading (sample_chat Mode_model)" by (simp add: sample_chat_def)
  have c: "hasFiles (sample_chat Mode_model)" by (simp add: sample_chat_def)
  have s: "settings (sample_chat Mode_model) = sample_settings"
    "backendMode (sample_chat Mode_model) = Mode_model" by (simp_all add: sample_chat_def)
  show ?thesis
    using handleSendMessage_request_by_mode [OF a b c, of "fetch_ok sample_response" sample_clock]
    by (simp add: t s sample_settings_def or_number_def truthy_number_def json_of_number_def)
qed

text \<open>
  Claim C2. Submits made one after the other, each accepted, make the transcript grow by
  two messages each, a user message followed by an assistant message; and an accepted
  submit appends the user message and the placeholder with \<open>isLoading = true\<close> in a
  single call of \<open>setMessages\<close> with the whole new sequence.
\<close>

theorem submit_appends_pair:
  assumes "hasFiles c" "\<not> isLoading c" "\<forall>x\<in>set xs. trim (fst x) \<noteq> []"
  shows "length (messages (submits xs c)) = length (messages c) + 2 * length xs
    \<and> map msg_type (messages (submits xs c)) =
        map msg_type (messages c) @ concat (replicate (length xs) [user, bot])
    \<and> (\<forall>input clk. trim input \<noteq> [] \<longrightarrow>
         (\<exists>c1 ev fl.
            handleSendMessage_dispatch clk (c\<lparr>inputValue := input\<rparr>) = Some (c1, ev, fl)
            \<and> message_updates ev = [messages c @ [fl_userMessage fl, fl_botMessage fl]]
            \<and> messages c1 = messages c @ [fl_userMessage fl, fl_botMessage fl]
            \<and> msg_type (fl_userMessage fl) = user
            \<and> content (fl_userMessage fl) = trim input
            \<and> msg_type (fl_botMessage fl) = bot
            \<and> msg_isLoading (fl_botMessage fl) = Some True))"
proof -
  have t: "map msg_type (messages (submits xs c)) =
        map msg_type (messages c) @ concat (replicate (length xs) [user, bot])"
    by (rule submits_types[OF assms])
  have "length (map msg_type (messages (submits xs c))) = length (messages c) + 2 * length xs"
    unfolding t by (simp add: length_concat sum_list_replicate)
  then have l: "length (messages (submits xs c)) = length (messages c) + 2 * length xs"
    by simp
  have d: "\<exists>c1 ev fl.
            handleSendMessage_dispatch clk (c\<lparr>inputValue := input\<rparr>) = Some (c1, ev, fl)
            \<and> message_updates ev = [messages c @ [fl_userMessage fl, fl_botMessage fl]]
            \<and> messages c1 = messages c @ [fl_userMessage fl, fl_botMessage fl]
            \<and> msg_type (fl_userMessage fl) = user
            \<and> content (fl_userMessage fl) = trim input
            \<and> msg_type (fl_botMessage fl) = bot
            \<and> msg_isLoading (fl_botMessage fl) = Some True"
    if "trim input \<noteq> []" for input clk
  proof -
    have acc: "trim (inputValue (c\<lparr>inputValue := input\<rparr>)) \<noteq> []"
      "\<not> isLoading (c\<lparr>inputValue := input\<rparr>)" "hasFiles (c\<lparr>inputValue := input\<rparr>)"
      using assms that by simp_all
    show ?thesis
      by (simp add: dispatch_accepted[OF acc] userMessage_of_def botMessage_of_def)
  qed
  show ?thesis using t l d by blast
qed

text \<open>Claim C2 at sample inputs.\<close>

theorem submit_appends_pair_witness:
  "length (messages (submits sample_submits (sample_chat Mode_api))) = 4
   \<and> map msg_type (messages (submits sample_submits (sample_chat Mode_api))) = [user, bot, user, bot]
   \<and> (\<exists>c1 ev fl.
        handleSendMessage_dispatch sample_clock (sample_chat Mode_api) = Some (c1, ev, fl)
        \<and> message_updates ev = [[fl_userMessage fl, fl_botMessage fl]]
        \<and> msg_isLoading (fl_botMessage fl) = Some True)"
proof -
  have h: "hasFiles (sample_chat Mode_api)" "\<not> isLoading (sample_chat Mode_api)"
    by (simp_all add: sample_chat_def)
  have t: "trim ''what does main do?'' = ''what does main do?''"
    "trim '' and parseInput? '' = ''and parseInput?''"
    "trim ''  what does main do? '' = ''what does main do?''"
    by (simp_all add: trim_def isWhiteSpace_def)
  have x: "\<forall>x\<in>set sample_submits. trim (fst x) \<noteq> []"
    by (simp add: sample_submits_def t)
  have i: "(sample_chat Mode_api)\<lparr>inputValue := ''  what does main do? ''\<rparr> = sample_chat Mode_api"
    by (simp add: sample_chat_def)
  have m: "messages (sample_chat Mode_api) = []" by (simp add: sample_chat_def)
  have n: "length sample_submits = 2" by (simp add: sample_submits_def)
  have r: "concat (replicate 2 [user, bot]) = [user, bot, user, bot]"
    by (simp add: numeral_2_eq_2)
  from submit_appends_pair [OF h x]
  have a: "length (messages (submits sample_submits (sample_chat Mode_api))) = 4"
    and b: "map msg_type (messages (submits sample_submits (sample_chat Mode_api))) = [user, bot, user, bot]"
    and c: "\<forall>input clk. trim input \<noteq> [] \<longrightarrow>
         (\<exists>c1 ev fl.
            handleSendMessage_dispatch clk ((sample_chat Mode_api)\<lparr>inputValue := input\<rparr>) = Some (c1, ev, fl)
            \<and> message_updates ev = [messages (sample_chat Mode_api) @ [fl_userMessage fl, fl_botMessage fl]]
            \<and> messages c1 = messages (sample_chat Mode_api) @ [fl_userMessage fl, fl_botMessage fl]
            \<and> msg_type (fl_userMessage fl) = user
            \<and> content (fl_userMessage fl) = trim input
            \<and> msg_type (fl_botMessage fl) = bot
            \<and> msg_isLoading (fl_botMessage fl) = Some True)"
    by (simp_all add: m n r)
  from c [rule_format, of "''  what does main do? ''" sample_clock]
  have "\<exists>c1 ev fl.
        handleSendMessage_dispatch sample_clock (sample_chat Mode_api) = Some (c1, ev, fl)
        \<and> message_updates ev = [[fl_userMessage fl, fl_botMessage fl]]
        \<and> msg_isLoading (fl_botMessage fl) = Some True"
    unfolding i m by (simp add: t) blast
  with a b show ?thesis by blast
qed

text \<open>
  Claim C3 as stated fails. The first state below is the one a dispatch leaves: its
  exchange is outstanding, the placeholder still loading. A new instance of the component
  mounted on it has \<open>isLoading\<close> cleared, and a submit to it is accepted: the transcript
  grows to four messages and a request is sent.
\<close>

theorem remounted_chat_accepts_submit_in_flight:
  "map_option fst (handleSendMessage_dispatch sample_clock (sample_chat Mode_api)) = Some sample_inflight_chat
   \<and> msg_isLoading (last (messages sample_inflight_chat)) = Some True
   \<and> length (messages sample_inflight_chat) = 2
   \<and> length (messages (fst (handleSendMessage (fetch_ok sample_response) later_clock
        ((InteractiveChat_mount sample_inflight_chat)\<lparr>inputValue := ''again''\<rparr>)))) = 4
   \<and> map url (fetches (fst (snd (handleSendMessage (fetch_ok sample_response) later_clock
        ((InteractiveChat_mount sample_inflight_chat)\<lparr>inputValue := ''again''\<rparr>)))))
       = [''http://localhost:8000/ask/'']"
proof -
  let ?c = "(InteractiveChat_mount sample_inflight_chat)\<lparr>inputValue := ''again''\<rparr>"
  have t: "trim ''again'' = ''again''" by (simp add: trim_def isWhiteSpace_def)
  have acc: "trim (inputValue ?c) \<noteq> []" "\<not> isLoading ?c" "hasFiles ?c"
    by (simp_all add: t InteractiveChat_mount_def sample_inflight_chat_def sample_chat_def)
  have m: "backendMode ?c = Mode_api" "length (messages ?c) = 2"
    by (simp_all add: InteractiveChat_mount_def sample_inflight_chat_def sample_chat_def)
  have 1: "map_option fst (handleSendMessage_dispatch sample_clock (sample_chat Mode_api)) = Some sample_inflight_chat"
    by (simp add: sample_dispatch sample_inflight_chat_def)
  have 2: "msg_isLoading (last (messages sample_inflight_chat)) = Some True"
    "length (messages sample_inflight_chat) = 2"
    by (simp_all add: sample_inflight_chat_def)
  have 3: "length (messages (fst (handleSendMessage (fetch_ok sample_response) later_clock ?c))) = 4"
    using arg_cong [OF accepted_run(1) [OF acc, of "fetch_ok sample_response" later_clock], of length] m(2)
    by simp
  have 4: "map url (fetches (fst (snd (handleSendMessage (fetch_ok sample_response) later_clock ?c))))
       = [''http://localhost:8000/ask/'']"
    by (simp add: handleSendMessage_accepted [OF acc] Let_def handleSendMessage_ask_def m(1)
        askQuestion_calls del: One_nat_def)
  show ?thesis using 1 2 3 4 by blast
qed

text \<open>
  Claim C3, amended. A submit whose input is empty or white space, or made while the
  \<open>isLoading\<close> flag of the component instance is set, or while its \<open>hasFiles\<close> flag is
  false, returns at once: the state is the same and nothing is done, no call to the
  backend either. A dispatch sets the flag, so in the instance that dispatched, whatever
  else has changed since, a submit made while the flag still stands is rejected in this
  way.
\<close>

theorem rejected_submit_is_noop:
  "(trim (inputValue c) = [] \<or> isLoading c \<or> \<not> hasFiles c \<longrightarrow>
      handleSendMessage fetch clk c = (c, [], None))
   \<and> (\<forall>clk0 c0 c1 ev fl.
        handleSendMessage_dispatch clk0 c0 = Some (c1, ev, fl) \<longrightarrow>
        isLoading c1 \<and>
        (\<forall>c'. isLoading c' = isLoading c1 \<longrightarrow> handleSendMessage fetch clk c' = (c', [], None)))"
proof -
  have r: "handleSendMessage fetch clk c' = (c', [], None)"
    if "trim (inputValue c') = [] \<or> isLoading c' \<or> \<not> hasFiles c'" for c'
    using dispatch_rejected[OF that] by (simp add: handleSendMessage_def)
  have l: "isLoading c1" if "handleSendMessage_dispatch clk0 c0 = Some (c1, ev, fl)" for clk0 c0 c1 ev fl
    using that by (auto simp: handleSendMessage_dispatch_def Let_def split: if_splits)
  show ?thesis
    using r l by auto
qed

text \<open>Claim C3 at sample inputs.\<close>

theorem rejected_submit_is_noop_witness:
  "handleSendMessage (fetch_ok sample_response) sample_clock ((sample_chat Mode_api)\<lparr>inputValue := [CHR 0x20, CHR 0x09, CHR 0x0A]\<rparr>)
     = ((sample_chat Mode_api)\<lparr>inputValue := [CHR 0x20, CHR 0x09, CHR 0x0A]\<rparr>, [], None)
   \<and> handleSendMessage (fetch_ok sample_response) sample_clock ((sample_chat Mode_api)\<lparr>hasFiles := False\<rparr>)
     = ((sample_chat Mode_api)\<lparr>hasFiles := False\<rparr>, [], None)
   \<and> isLoading sample_inflight_chat
   \<and> handleSendMessage (fetch_ok sample_response) later_clock (sample_inflight_chat\<lparr>inputValue := ''again''\<rparr>)
            = (sample_inflight_chat\<lparr>inputValue := ''again''\<rparr>, [], None)"
proof -
  let ?blank = "(sample_chat Mode_api)\<lparr>inputValue := [CHR 0x20, CHR 0x09, CHR 0x0A]\<rparr>"
  let ?nofiles = "(sample_chat Mode_api)\<lparr>hasFiles := False\<rparr>"
  have b: "trim (inputValue ?blank) = [] \<or> isLoading ?blank \<or> \<not> hasFiles ?blank"
    by (simp add: trim_def isWhiteSpace_def)
  have n: "trim (inputValue ?nofiles) = [] \<or> isLoading ?nofiles \<or> \<not> hasFiles ?nofiles"
    by simp
  have d: "handleSendMessage_dispatch sample_clock (sample_chat Mode_api) =
    Some (sample_inflight_chat, 
          [SetMessages (messages sample_inflight_chat), SetInputValue [], SetIsLoading True],
          \<lparr>fl_userMessage = messages sample_inflight_chat ! 0,
           fl_botMessage = messages sample_inflight_chat ! 1,
           fl_newMessages = messages sample_inflight_chat,
           fl_backendMode = Mode_api,
           fl_settings = sample_settings,
           fl_onQueryComplete = True\<rparr>)"
    by (simp add: sample_dispatch sample_inflight_chat_def)
  have 1: "handleSendMessage (fetch_ok sample_response) sample_clock ?blank = (?blank, [], None)"
    using rejected_submit_is_noop [of ?blank "fetch_ok sample_response" sample_clock] b by blast
  have 2: "handleSendMessage (fetch_ok sample_response) sample_clock ?nofiles = (?nofiles, [], None)"
    using rejected_submit_is_noop [of ?nofiles "fetch_ok sample_response" sample_clock] n by blast
  from rejected_submit_is_noop [of ?blank "fetch_ok sample_response" later_clock]
  have "\<forall>clk0 c0 c1 ev fl.
        handleSendMessage_dispatch clk0 c0 = Some (c1, ev, fl) \<longrightarrow>
        isLoading c1 \<and>
        (\<forall>c'. isLoading c' = isLoading c1 \<longrightarrow>
           handleSendMessage (fetch_ok sample_response) later_clock c' = (c', [], None))"
    by blast
  from this [rule_format, OF d]
  have 3: "isLoading sample_inflight_chat"
    and 4: "\<And>c'. isLoading c' = isLoading sample_inflight_chat \<Longrightarrow>
           handleSendMessage (fetch_ok sample_response) later_clock c' = (c', [], None)"
    by blast+
  have 5: "handleSendMessage (fetch_ok sample_response) later_clock (sample_inflight_chat\<lparr>inputValue := ''again''\<rparr>)
            = (sample_inflight_chat\<lparr>inputValue := ''again''\<rparr>, [], None)"
    by (rule 4) simp
  show ?thesis using 1 2 3 5 by blast
qed

text \<open>
  Claim C4 as stated fails. The transcript below already holds an answered exchange made
  in the millisecond the clock shows again; the new placeholder gets the id of the old
  answer, and when the call fails the old answer's content is overwritten as well.
\<close>

theorem failed_ask_overwrites_message_with_same_id:
  "messages clash_chat =
     [\<lparr>msg_id = ''1000'', msg_type = user, content = ''where is main?'',
       timestamp = 1000, response = None, msg_isLoading = None\<rparr>,
      \<lparr>msg_id = ''1001'', msg_type = bot, content = ''It parses the input.'',
       timestamp = 1000, response = Some sample_response, msg_isLoading = Some False\<rparr>]
   \<and> messages (fst (handleSendMessage fetch_500 sample_clock clash_chat)) =
     [\<lparr>msg_id = ''1000'', msg_type = user, content = ''where is main?'',
       timestamp = 1000, response = None, msg_isLoading = None\<rparr>,
      \<lparr>msg_id = ''1001'', msg_type = bot, content = ''Error: HTTP 500: Internal Server Error'',
       timestamp = 1000, response = Some sample_response, msg_isLoading = Some False\<rparr>,
      \<lparr>msg_id = ''1000'', msg_type = user, content = ''what does main do?'',
       timestamp = 1000, response = None, msg_isLoading = None\<rparr>,
      \<lparr>msg_id = ''1001'', msg_type = bot, content = ''Error: HTTP 500: Internal Server Error'',
       timestamp = 1000, response = None, msg_isLoading = Some False\<rparr>]"
proof -
  have acc: "trim (inputValue clash_chat) \<noteq> []" "\<not> isLoading clash_chat" "hasFiles clash_chat"
    by (simp_all add: clash_chat_def sample_chat_def sample_trim)
  have i: "inputValue clash_chat = ''  what does main do? ''"
    by (simp add: clash_chat_def sample_chat_def)
  have m: "messages clash_chat =
     [\<lparr>msg_id = ''1000'', msg_type = user, content = ''where is main?'',
       timestamp = 1000, response = None, msg_isLoading = None\<rparr>,
      \<lparr>msg_id = ''1001'', msg_type = bot, content = ''It parses the input.'',
       timestamp = 1000, response = Some sample_response, msg_isLoading = Some False\<rparr>]"
    by (simp add: clash_chat_def)
  show ?thesis
    by (simp add: handleSendMessage_accepted [OF acc] Let_def ask_500 settle_state m
        userMessage_of_def botMessage_of_def i sample_trim sample_clock_def sample_ids
        failed_message_def error_content_def)
qed

text \<open>
  Claim C4, amended. When the call of a dispatched exchange fails, the handler's promise
  still resolves, and the new transcript is the one built at dispatch with every message
  that carries the placeholder's id rewritten: its content is \<open>Error: \<close> followed by the
  error's message (\<open>Failed to get response\<close> for a thrown value that is no \<open>Error\<close>) and
  it is no longer loading; messages with another id are as they were. The placeholder
  comes last and has no response. When the clock did not run backwards between the two
  ids and no earlier message carries the placeholder's id, the placeholder is the only
  message replaced.
\<close>

theorem failed_ask_replaces_placeholder:
  assumes "handleSendMessage_dispatch clk c = Some (c1, ev1, fl)"
    and "snd (handleSendMessage_ask fetch fl) = Inl error"
  shows "snd (snd (handleSendMessage fetch clk c)) = None
    \<and> messages (fst (handleSendMessage fetch clk c)) =
        map (\<lambda>msg. if msg_id msg = toString (now_bot_id clk + 1)
                   then msg\<lparr>content := ''Error: '' @
                                (case error of JsError message \<Rightarrow> message
                                 | NotAnError \<Rightarrow> ''Failed to get response''),
                            msg_isLoading := Some False\<rparr>
                   else msg)
          (messages c @
            [\<lparr>msg_id = toString (now_user_id clk), msg_type = user, content = trim (inputValue c),
              timestamp = now_user clk, response = None, msg_isLoading = None\<rparr>,
             \<lparr>msg_id = toString (now_bot_id clk + 1), msg_type = bot, content = [],
              timestamp = now_bot clk, response = None, msg_isLoading = Some True\<rparr>])
    \<and> last (messages (fst (handleSendMessage fetch clk c))) =
        \<lparr>msg_id = toString (now_bot_id clk + 1), msg_type = bot,
         content = ''Error: '' @
           (case error of JsError message \<Rightarrow> message | NotAnError \<Rightarrow> ''Failed to get response''),
         timestamp = now_bot clk, response = None, msg_isLoading = Some False\<rparr>
    \<and> (now_user_id clk \<le> now_bot_id clk \<and>
        (\<forall>m \<in> set (messages c). msg_id m \<noteq> toString (now_bot_id clk + 1)) \<longrightarrow>
          messages (fst (handleSendMessage fetch clk c)) =
            messages c @
              [\<lparr>msg_id = toString (now_user_id clk), msg_type = user, content = trim (inputValue c),
                timestamp = now_user clk, response = None, msg_isLoading = None\<rparr>,
               \<lparr>msg_id = toString (now_bot_id clk + 1), msg_type = bot,
                content = ''Error: '' @
                  (case error of JsError message \<Rightarrow> message
                   | NotAnError \<Rightarrow> ''Failed to get response''),
                timestamp = now_bot clk, response = None, msg_isLoading = Some False\<rparr>])
    \<and> \<not> isLoading (fst (handleSendMessage fetch clk c))"
proof -
  note d = dispatch_SomeD[OF assms(1)]
  let ?e = "''Error: '' @
      (case error of JsError message \<Rightarrow> message | NotAnError \<Rightarrow> ''Failed to get response'')"
  let ?f = "\<lambda>msg. if msg_id msg = toString (now_bot_id clk + 1)
                   then msg\<lparr>content := ?e, msg_isLoading := Some False\<rparr> else msg"
  let ?u = "\<lparr>msg_id = toString (now_user_id clk), msg_type = user, content = trim (inputValue c),
              timestamp = now_user clk, response = None, msg_isLoading = None\<rparr>"
  let ?b = "\<lparr>msg_id = toString (now_bot_id clk + 1), msg_type = bot, content = [],
              timestamp = now_bot clk, response = None, msg_isLoading = Some True\<rparr>"
  have u: "fl_userMessage fl = ?u" by (simp add: d(4) userMessage_of_def)
  have b: "fl_botMessage fl = ?b" by (simp add: d(5) botMessage_of_def)
  have n: "fl_newMessages fl = messages c @ [?u, ?b]"
    by (simp add: d(6) userMessage_of_def botMessage_of_def)
  have st: "fst (handleSendMessage fetch clk c) =
      c1\<lparr>messages := map ?f (messages c @ [?u, ?b]), isLoading := False\<rparr>"
    by (simp add: handleSendMessage_dispatched[OF assms(1)] assms(2) settle_state n b
        failed_message_def error_content_def)
  have m: "messages (fst (handleSendMessage fetch clk c)) = map ?f (messages c @ [?u, ?b])"
    by (simp add: st)
  have 1: "snd (snd (handleSendMessage fetch clk c)) = None"
    by (simp add: handleSendMessage_dispatched[OF assms(1)])
  have 3: "last (messages (fst (handleSendMessage fetch clk c))) =
        \<lparr>msg_id = toString (now_bot_id clk + 1), msg_type = bot, content = ?e,
         timestamp = now_bot clk, response = None, msg_isLoading = Some False\<rparr>"
    by (simp add: m)
  have 5: "messages (fst (handleSendMessage fetch clk c)) =
            messages c @ [?u,
              \<lparr>msg_id = toString (now_bot_id clk + 1), msg_type = bot, content = ?e,
               timestamp = now_bot clk, response = None, msg_isLoading = Some False\<rparr>]"
    if "now_user_id clk \<le> now_bot_id clk \<and>
        (\<forall>m \<in> set (messages c). msg_id m \<noteq> toString (now_bot_id clk + 1))"
  proof -
    have "map ?f (messages c) = messages c"
      using that by (intro map_idI) simp
    then show ?thesis
      using user_id_differs [of clk] that by (simp add: m)
  qed
  have 6: "\<not> isLoading (fst (handleSendMessage fetch clk c))"
    by (simp add: st)
  show ?thesis using 1 m 3 5 6 by blast
qed

text \<open>Claim C4 at sample inputs.\<close>

theorem failed_ask_replaces_placeholder_witness:
  "snd (snd (handleSendMessage fetch_500 sample_clock (sample_chat Mode_api))) = None
   \<and> messages (fst (handleSendMessage fetch_500 sample_clock (sample_chat Mode_api))) =
       [\<lparr>msg_id = ''1000'', msg_type = user, content = ''what does main do?'',
         timestamp = 1000, response = None, msg_isLoading = None\<rparr>,
        \<lparr>msg_id = ''1001'', msg_type = bot, content = ''Error: HTTP 500: Internal Server Error'',
         timestamp = 1000, response = None, msg_isLoading = Some False\<rparr>]
   \<and> \<not> isLoading (fst (handleSendMessage fetch_500 sample_clock (sample_chat Mode_api)))"
proof -
  have c: "now_user_id sample_clock \<le> now_bot_id sample_clock \<and>
        (\<forall>m \<in> set (messages (sample_chat Mode_api)). msg_id m \<noteq> toString (now_bot_id sample_clock + 1))"
    by (simp add: sample_clock_def sample_chat_def)
  have v: "now_user_id sample_clock = 1000" "now_bot_id sample_clock = 1000"
    "now_user sample_clock = 1000" "now_bot sample_clock = 1000"
    "messages (sample_chat Mode_api) = []"
    "trim (inputValue (sample_chat Mode_api)) = ''what does main do?''"
    by (simp_all add: sample_clock_def sample_chat_def sample_trim)
  show ?thesis
    using failed_ask_replaces_placeholder [OF sample_dispatch [of Mode_api] ask_500] c
    by (simp add: v sample_ids)
qed

text \<open>
  Claim C5 as stated fails: the exchange below is dispatched, an observer is there, the
  server answers 500, and the observer is not called.
\<close>

theorem observer_not_notified_on_failure:
  "fetches (fst (snd (handleSendMessage fetch_500 sample_clock (sample_chat Mode_api)))) \<noteq> []
   \<and> onQueryComplete (sample_chat Mode_api)
   \<and> notifications (fst (snd (handleSendMessage fetch_500 sample_clock (sample_chat Mode_api)))) = []"
proof -
  have "onQueryComplete (sample_chat Mode_api)" by (simp add: sample_chat_def)
  then show ?thesis
    by (simp add: handleSendMessage_dispatched[OF sample_dispatch] ask_500
        handleSendMessage_settle_def Let_def ask_calls_nonempty)
qed

text \<open>
  Claim C5, amended. When the call of a dispatched exchange resolves and the parent passed
  \<open>onQueryComplete\<close>, the observer is called once, with the trimmed query text, the
  response and the time of resolution. When the call fails the observer is not called.
\<close>

theorem observer_notified_on_success:
  assumes "handleSendMessage_dispatch clk c = Some (c1, ev1, fl)"
  shows "(case snd (handleSendMessage_ask fetch fl) of
            Inr r \<Rightarrow>
              notifications (fst (snd (handleSendMessage fetch clk c))) =
                (if onQueryComplete c then [(trim (inputValue c), r, now_done clk)] else [])
          | Inl error \<Rightarrow>
              notifications (fst (snd (handleSendMessage fetch clk c))) = [])"
proof -
  note d = dispatch_SomeD[OF assms(1)]
  have e: "ev1 = [SetMessages (fl_newMessages fl), SetInputValue [], SetIsLoading True]"
    using assms by (auto simp: handleSendMessage_dispatch_def Let_def split: if_splits)
  show ?thesis
    by (cases "snd (handleSendMessage_ask fetch fl)")
      (simp_all add: handleSendMessage_dispatched[OF assms(1)] e handleSendMessage_settle_def
        Let_def d(4,7) userMessage_of_def)
qed

text \<open>Claim C5 at sample inputs.\<close>

theorem observer_notified_on_success_witness:
  "notifications (fst (snd (handleSendMessage (fetch_ok sample_response) sample_clock (sample_chat Mode_model))))
     = [(''what does main do?'', sample_response, 1250)]"
  using observer_notified_on_success [OF sample_dispatch, where fetch = "fetch_ok sample_response" and mode1 = Mode_model]
  by (simp add: ask_ok sample_chat_def sample_trim sample_clock_def)

text \<open>
  Claim C6. When \<open>clearCodebase\<close> resolves, the flag is false, the file list and the
  messages are empty and the \<open>uploadedFiles\<close> entry is removed (and the effect that writes
  the messages back stores the empty sequence); nothing else changes and no alert is
  shown. When it rejects, the state is as before the call and one alert is shown.
\<close>

theorem clear_all_or_nothing:
  "(case snd (clearCodebase fetch) of
      Inr ack \<Rightarrow>
        fst (handleClearBackendFiles fetch d) =
          d\<lparr>hasBackendFiles := False, localFiles := [], chatMessages := [],
            localStorage := (localStorage d)\<lparr>ls_uploadedFiles := None\<rparr>\<rparr>
        \<and> alerts (snd (handleClearBackendFiles fetch d)) = []
        \<and> ls_chatMessages (localStorage (persist_effects (fst (handleClearBackendFiles fetch d))))
            = Some (Encoded [])
    | Inl error \<Rightarrow>
        fst (handleClearBackendFiles fetch d) = d
        \<and> alerts (snd (handleClearBackendFiles fetch d)) =
            [''Failed to clear files. Please check backend connection.''])"
  by (cases "clearCodebase fetch"; cases "snd (clearCodebase fetch)")
    (simp_all add: handleClearBackendFiles_def persist_effects_def)

text \<open>Claim C6 at sample inputs.\<close>

theorem clear_all_or_nothing_witness:
  "hasBackendFiles (fst (handleClearBackendFiles (fetch_ok ''cleared'') sample_dashboard)) = False
   \<and> localFiles (fst (handleClearBackendFiles (fetch_ok ''cleared'') sample_dashboard)) = []
   \<and> chatMessages (fst (handleClearBackendFiles (fetch_ok ''cleared'') sample_dashboard)) = []
   \<and> ls_uploadedFiles (localStorage (fst (handleClearBackendFiles (fetch_ok ''cleared'') sample_dashboard))) = None
   \<and> fst (handleClearBackendFiles fetch_500 sample_dashboard) = sample_dashboard
   \<and> alerts (snd (handleClearBackendFiles fetch_500 sample_dashboard)) =
        [''Failed to clear files. Please check backend connection.'']"
  using clear_all_or_nothing [of "fetch_ok ''cleared''" sample_dashboard] clear_all_or_nothing [of fetch_500 sample_dashboard]
  by (simp add: clear_500 clear_ok)

text \<open>
  Claim C7 as stated fails: with a \<open>chatSettings\<close> entry that is not JSON, the effect run
  on mount throws.
\<close>

theorem mount_malformed_settings_throws:
  "snd (mount_effect (initial_dashboard (empty_storage\<lparr>ls_chatSettings := Some (NotJSON ''{bad'')\<rparr>)))
     = Some SyntaxError"
  by (simp add: mount_effect_def initial_dashboard_def empty_storage_def parse_if_saved_def JSON_parse_def)

text \<open>
  Claim C7, amended. Each entry is read on its own. An entry that is absent or empty
  leaves its part of the state as it starts, the empty message sequence or the default
  settings \<open>{temperature: 0.2, top_k: 5, similarity_threshold: 0.7}\<close>; an entry that
  decodes is loaded. When neither entry is a non-empty text that is not JSON, the effect
  run on mount throws nothing. When the \<open>chatMessages\<close> entry is such a text the effect
  throws a \<open>SyntaxError\<close> and nothing is loaded; when the \<open>chatSettings\<close> entry is, it
  throws after the messages were read, and the settings stay the defaults.
\<close>

theorem mount_loads_each_entry:
  "((ls_chatMessages ls = None \<or> ls_chatMessages ls = Some (NotJSON [])) \<longrightarrow>
      (ls_chatSettings ls = None \<or> ls_chatSettings ls = Some (NotJSON []) \<longrightarrow>
         mount_effect (initial_dashboard ls) = (initial_dashboard ls, None))
      \<and> (\<forall>st. ls_chatSettings ls = Some (Encoded st) \<longrightarrow>
         mount_effect (initial_dashboard ls) = ((initial_dashboard ls)\<lparr>chatSettings := st\<rparr>, None))
      \<and> (\<forall>t. t \<noteq> [] \<and> ls_chatSettings ls = Some (NotJSON t) \<longrightarrow>
         mount_effect (initial_dashboard ls) = (initial_dashboard ls, Some (JsError ''SyntaxError''))))
   \<and> (\<forall>ms. ls_chatMessages ls = Some (Encoded ms) \<longrightarrow>
      (ls_chatSettings ls = None \<or> ls_chatSettings ls = Some (NotJSON []) \<longrightarrow>
         mount_effect (initial_dashboard ls) = ((initial_dashboard ls)\<lparr>chatMessages := ms\<rparr>, None))
      \<and> (\<forall>st. ls_chatSettings ls = Some (Encoded st) \<longrightarrow>
         mount_effect (initial_dashboard ls) =
           ((initial_dashboard ls)\<lparr>chatMessages := ms, chatSettings := st\<rparr>, None))
      \<and> (\<forall>t. t \<noteq> [] \<and> ls_chatSettings ls = Some (NotJSON t) \<longrightarrow>
         mount_effect (initial_dashboard ls) =
           ((initial_dashboard ls)\<lparr>chatMessages := ms\<rparr>, Some (JsError ''SyntaxError''))))
   \<and> (\<forall>t. t \<noteq> [] \<and> ls_chatMessages ls = Some (NotJSON t) \<longrightarrow>
      mount_effect (initial_dashboard ls) = (initial_dashboard ls, Some (JsError ''SyntaxError'')))
   \<and> chatMessages (initial_dashboard ls) = []
   \<and> chatSettings (initial_dashboard ls) =
       \<lparr>temperature = Num 0.2, top_k = Num 5, similarity_threshold = Num 0.7\<rparr>"
  by (auto simp: mount_effect_def initial_dashboard_def parse_if_saved_def JSON_parse_def
      default_settings_def SyntaxError_def Let_def split: option.splits stored.splits sum.splits)

text \<open>Claim C7 at sample inputs.\<close>

theorem mount_loads_each_entry_witness:
  "mount_effect (initial_dashboard empty_storage) = (initial_dashboard empty_storage, None)
   \<and> chatMessages (initial_dashboard empty_storage) = []
   \<and> chatSettings (initial_dashboard empty_storage) =
       \<lparr>temperature = Num 0.2, top_k = Num 5, similarity_threshold = Num 0.7\<rparr>
   \<and> mount_effect (initial_dashboard (empty_storage\<lparr>ls_chatSettings := Some (Encoded sample_settings)\<rparr>))
       = ((initial_dashboard (empty_storage\<lparr>ls_chatSettings := Some (Encoded sample_settings)\<rparr>))
            \<lparr>chatSettings := sample_settings\<rparr>, None)
   \<and> mount_effect (initial_dashboard (empty_storage\<lparr>ls_chatMessages := Some (Encoded sample_messages)\<rparr>))
       = ((initial_dashboard (empty_storage\<lparr>ls_chatMessages := Some (Encoded sample_messages)\<rparr>))
            \<lparr>chatMessages := sample_messages\<rparr>, None)
   \<and> mount_effect (initial_dashboard (empty_storage\<lparr>ls_chatMessages := Some (NotJSON ''[{'')\<rparr>))
       = (initial_dashboard (empty_storage\<lparr>ls_chatMessages := Some (NotJSON ''[{'')\<rparr>),
          Some (JsError ''SyntaxError''))"
  using mount_loads_each_entry [of empty_storage]
    mount_loads_each_entry [of "empty_storage\<lparr>ls_chatSettings := Some (Encoded sample_settings)\<rparr>"]
    mount_loads_each_entry [of "empty_storage\<lparr>ls_chatMessages := Some (Encoded sample_messages)\<rparr>"]
    mount_loads_each_entry [of "empty_storage\<lparr>ls_chatMessages := Some (NotJSON ''[{'')\<rparr>"]
  by (simp add: empty_storage_def)

text \<open>
  Claim C8. Under the mode \<open>api\<close> the diagram of a chunk is made without any call to
  \<open>fetch\<close>, and the promise resolves: to the flowchart skeleton, with the function name
  in its first node, when the chunk has a non-empty function name; otherwise to the class
  diagram skeleton when its type is \<open>class\<close> or its content contains \<open>class \<close> or
  \<open>struct \<close>; otherwise to the generic stub. The three texts are the ones written in the
  source.
\<close>

theorem api_mode_diagram_is_local:
  "fst (generateMermaidForChunk fetch Mode_api chunk) = []
   \<and> (\<forall>name. function_name chunk = Some name \<and> name \<noteq> [] \<longrightarrow>
        snd (generateMermaidForChunk fetch Mode_api chunk) =
          ''graph TD'' @ [CHR 0x0A] @
          ''    A[Start '' @ name @ ''] --> B{Process?}'' @ [CHR 0x0A] @
          ''    B -- Yes --> C[Do Something]'' @ [CHR 0x0A] @
          ''    C --> D[End]'' @ [CHR 0x0A] @
          ''    B -- No --> D'')
   \<and> ((function_name chunk = None \<or> function_name chunk = Some []) \<and>
      (chunk_type chunk = ''class'' \<or> includes_str (chunk_content chunk) ''class ''
         \<or> includes_str (chunk_content chunk) ''struct '') \<longrightarrow>
        snd (generateMermaidForChunk fetch Mode_api chunk) =
          ''classDiagram'' @ [CHR 0x0A] @
          ''    class MyClass {'' @ [CHR 0x0A] @
          ''        + myMethod()'' @ [CHR 0x0A] @
          ''        - myField'' @ [CHR 0x0A] @
          ''    }'' @ [CHR 0x0A] @
          ''    MyClass <|-- AnotherClass'' @ [CHR 0x0A] @
          ''    MyClass : +memberVariable'' @ [CHR 0x0A] @
          ''    MyClass : +memberFunction()'')
   \<and> ((function_name chunk = None \<or> function_name chunk = Some []) \<and>
      chunk_type chunk \<noteq> ''class'' \<and> \<not> includes_str (chunk_content chunk) ''class ''
         \<and> \<not> includes_str (chunk_content chunk) ''struct '' \<longrightarrow>
        snd (generateMermaidForChunk fetch Mode_api chunk) =
          ''graph TD'' @ [CHR 0x0A] @
          ''    A[Code Chunk] --> B[Content Analysis]'' @ [CHR 0x0A] @
          ''    B --> C[No specific structure found]'')
   \<and> (\<forall>name.
        ''graph TD'' @ [CHR 0x0A] @
        ''    A[Start '' @ name @ ''] --> B{Process?}'' @ [CHR 0x0A] @
        ''    B -- Yes --> C[Do Something]'' @ [CHR 0x0A] @
        ''    C --> D[End]'' @ [CHR 0x0A] @
        ''    B -- No --> D''
        \<noteq> ''graph TD'' @ [CHR 0x0A] @
          ''    A[Code Chunk] --> B[Content Analysis]'' @ [CHR 0x0A] @
          ''    B --> C[No specific structure found]'')"
  by (auto simp: generateMermaidForChunk_def or_string_opt_def or_string_def truthy_string_def
      flowchart_skeleton_def class_skeleton_def generic_stub_def nl_def split: option.splits)

text \<open>Claim C8 at sample inputs.\<close>

theorem api_mode_diagram_is_local_witness:
  "generateMermaidForChunk fetch_refused Mode_api sample_chunk =
     ([], ''graph TD'' @ [CHR 0x0A] @
          ''    A[Start parseInput] --> B{Process?}'' @ [CHR 0x0A] @
          ''    B -- Yes --> C[Do Something]'' @ [CHR 0x0A] @
          ''    C --> D[End]'' @ [CHR 0x0A] @
          ''    B -- No --> D'')
   \<and> generateMermaidForChunk fetch_refused Mode_api
        (sample_chunk\<lparr>function_name := None, chunk_content := ''typedef struct node {''\<rparr>)
        = ([], ''classDiagram'' @ [CHR 0x0A] @
          ''    class MyClass {'' @ [CHR 0x0A] @
          ''        + myMethod()'' @ [CHR 0x0A] @
          ''        - myField'' @ [CHR 0x0A] @
          ''    }'' @ [CHR 0x0A] @
          ''    MyClass <|-- AnotherClass'' @ [CHR 0x0A] @
          ''    MyClass : +memberVariable'' @ [CHR 0x0A] @
          ''    MyClass : +memberFunction()'')
   \<and> generateMermaidForChunk fetch_refused Mode_api
        (sample_chunk\<lparr>function_name := None, chunk_content := ''#define N 10''\<rparr>)
        = ([], ''graph TD'' @ [CHR 0x0A] @
          ''    A[Code Chunk] --> B[Content Analysis]'' @ [CHR 0x0A] @
          ''    B --> C[No specific structure found]'')"
proof -
  let ?s = "sample_chunk\<lparr>function_name := None, chunk_content := ''typedef struct node {''\<rparr>"
  let ?g = "sample_chunk\<lparr>function_name := None, chunk_content := ''#define N 10''\<rparr>"
  have 1: "function_name sample_chunk = Some ''parseInput''" by (simp add: sample_chunk_def)
  have 2: "(function_name ?s = None \<or> function_name ?s = Some []) \<and>
      (chunk_type ?s = ''class'' \<or> includes_str (chunk_content ?s) ''class ''
         \<or> includes_str (chunk_content ?s) ''struct '')"
    by simp
  have 3: "(function_name ?g = None \<or> function_name ?g = Some []) \<and>
      chunk_type ?g \<noteq> ''class'' \<and> \<not> includes_str (chunk_content ?g) ''class ''
         \<and> \<not> includes_str (chunk_content ?g) ''struct ''"
    by (simp add: sample_chunk_def)
  show ?thesis
    using api_mode_diagram_is_local [of fetch_refused sample_chunk] api_mode_diagram_is_local [of fetch_refused ?s] api_mode_diagram_is_local [of fetch_refused ?g] 1 2 3
    by (simp add: prod_eq_iff)
qed

text \<open>
  Claim C9. The code at two inputs: the listing after the upload is empty, or it fails
  and there is no cached list. In both the handler ends with the flag set and the file
  list empty, since it sets the flag after \<open>checkLocalFiles\<close> whatever that found.
\<close>

theorem upload_sets_flag_unconditionally:
  "hasBackendFiles (fst (handleBackendFilesUploaded (fetch_ok []) [sample_file] (initial_dashboard empty_storage)))
   \<and> localFiles (fst (handleBackendFilesUploaded (fetch_ok []) [sample_file] (initial_dashboard empty_storage))) = []
   \<and> hasBackendFiles (fst (handleBackendFilesUploaded fetch_refused [sample_file] (initial_dashboard empty_storage)))
   \<and> localFiles (fst (handleBackendFilesUploaded fetch_refused [sample_file] (initial_dashboard empty_storage))) = []"
  by (simp add: handleBackendFilesUploaded_def checkLocalFiles_def listCodebaseFiles_def request_def
      fetch_ok_def fetch_refused_def Let_def initial_dashboard_def empty_storage_def parse_if_saved_def)

text \<open>
  Claim C10. In the body of both ask operations a \<open>temperature\<close>, \<open>top_k\<close> or
  \<open>similarity_threshold\<close> that is omitted or zero is replaced by 0.2, 5 and 0.7; the three
  fields are never zero; and these bodies are the ones sent.
\<close>

theorem zero_settings_replaced_by_defaults:
  "(req_temperature req = None \<or> req_temperature req = Some (Num 0) \<longrightarrow>
      json_field (askQuestion_body req) ''temperature'' = Some (JNumber 0.2) \<and>
      json_field (askModelQuestion_body req) ''temperature'' = Some (JNumber 0.2))
   \<and> (req_top_k req = None \<or> req_top_k req = Some (Num 0) \<longrightarrow>
      json_field (askQuestion_body req) ''top_k'' = Some (JNumber 5) \<and>
      json_field (askModelQuestion_body req) ''top_k'' = Some (JNumber 5))
   \<and> (req_similarity_threshold req = None \<or> req_similarity_threshold req = Some (Num 0) \<longrightarrow>
      json_field (askQuestion_body req) ''similarity_threshold'' = Some (JNumber 0.7) \<and>
      json_field (askModelQuestion_body req) ''similarity_threshold'' = Some (JNumber 0.7))
   \<and> (\<forall>k \<in> {''temperature'', ''top_k'', ''similarity_threshold''}.
        json_field (askQuestion_body req) k \<noteq> Some (JNumber 0) \<and>
        json_field (askModelQuestion_body req) k \<noteq> Some (JNumber 0))
   \<and> map body (fst (askQuestion fetch req)) = [Some (askQuestion_body req)]
   \<and> map body (fst (askModelQuestion fetch req)) = [Some (askModelQuestion_body req)]"
proof -
  have d: "json_of_number (or_number x (Num 0.2)) \<noteq> JNumber 0"
    "json_of_number (or_number x (Num 5)) \<noteq> JNumber 0"
    "json_of_number (or_number x (Num 0.7)) \<noteq> JNumber 0" for x
    by (rule json_of_number_nonzero, rule or_number_nonzero, simp)+
  have t: "req_temperature req = None \<or> req_temperature req = Some (Num 0) \<longrightarrow>
      json_field (askQuestion_body req) ''temperature'' = Some (JNumber 0.2) \<and>
      json_field (askModelQuestion_body req) ''temperature'' = Some (JNumber 0.2)"
    by (auto simp: json_field_ask or_number_default json_of_number_def)
  have k: "req_top_k req = None \<or> req_top_k req = Some (Num 0) \<longrightarrow>
      json_field (askQuestion_body req) ''top_k'' = Some (JNumber 5) \<and>
      json_field (askModelQuestion_body req) ''top_k'' = Some (JNumber 5)"
    by (auto simp: json_field_ask or_number_default json_of_number_def)
  have s: "req_similarity_threshold req = None \<or> req_similarity_threshold req = Some (Num 0) \<longrightarrow>
      json_field (askQuestion_body req) ''similarity_threshold'' = Some (JNumber 0.7) \<and>
      json_field (askModelQuestion_body req) ''similarity_threshold'' = Some (JNumber 0.7)"
    by (auto simp: json_field_ask or_number_default json_of_number_def)
  have z: "\<forall>k \<in> {''temperature'', ''top_k'', ''similarity_threshold''}.
        json_field (askQuestion_body req) k \<noteq> Some (JNumber 0) \<and>
        json_field (askModelQuestion_body req) k \<noteq> Some (JNumber 0)"
    using d by (simp add: json_field_ask del: json_field.simps)
  have b: "map body (fst (askQuestion fetch req)) = [Some (askQuestion_body req)]"
    "map body (fst (askModelQuestion fetch req)) = [Some (askModelQuestion_body req)]"
    by (simp_all add: askQuestion_calls askModelQuestion_calls)
  show ?thesis
    using t k s z b by blast
qed

text \<open>Claim C10 at sample inputs.\<close>

theorem zero_settings_replaced_by_defaults_witness:
  "json_field (askQuestion_body zero_request) ''temperature'' = Some (JNumber 0.2)
   \<and> json_field (askModelQuestion_body zero_request) ''temperature'' = Some (JNumber 0.2)
   \<and> json_field (askQuestion_body zero_request) ''top_k'' = Some (JNumber 5)
   \<and> json_field (askModelQuestion_body zero_request) ''top_k'' = Some (JNumber 5)
   \<and> json_field (askQuestion_body zero_request) ''similarity_threshold'' = Some (JNumber 0.7)
   \<and> json_field (askModelQuestion_body zero_request) ''similarity_threshold'' = Some (JNumber 0.7)"
  using zero_settings_replaced_by_defaults [of zero_request fetch_refused]
  by (simp add: zero_request_def)

end
